theory Spec2Isabelle
  imports Complex_Main "HOL-Library.Word"
begin

section \<open>The ONVIF device of lib/onvif-device.js\<close>

text \<open>
  The file holds one class, \<open>OnvifDevice\<close>: a constructor that projects a camera's
  default profile onto read-only properties and registers the PTZ actions, a timer
  callback that polls a snapshot, the method \<open>snapshot\<close> and the method
  \<open>performAction\<close>. The camera client, the host's \<open>Device\<close> base class and the
  \<open>Action\<close> objects are collaborators outside the repository: a call into one of
  them is an \<^emph>\<open>event\<close> of the model, and what the camera answers is an input.
\<close>

subsection \<open>JavaScript values\<close>

text \<open>
  The profile, the device information and an action's input are plain JavaScript
  data. A number is a rational or NaN (the infinities and the negative zero are left
  out, and a number is not rounded to binary64); an object is the list of its own
  fields; arrays are left out. Strings are lists of 8-bit characters.
\<close>

datatype jsval =
    JUndefined
  | JNull
  | JBool bool
  | JNum rat
  | JNaN
  | JStr string
  | JObj "(string \<times> jsval) list"

text \<open>
  What is thrown or what a promise is rejected with. \<open>TypeError\<close> is the engine's
  error for a member access on \<open>undefined\<close> or \<open>null\<close>; \<open>Failure s\<close> is a reason
  that comes from a collaborator, kept as the string that \<open>`${e}`\<close> makes of it.
\<close>

datatype error = TypeError | Failure string

text \<open>
  A promise is represented by how it settles; a promise that never settles is not
  represented.
\<close>

datatype 'a promise = Fulfilled 'a | Rejected error

text \<open>Sequencing of steps that may throw.\<close>

definition and_then :: "error + 'a \<Rightarrow> ('a \<Rightarrow> error + 'b) \<Rightarrow> error + 'b" where
  "and_then m f = (case m of Inl e \<Rightarrow> Inl e | Inr x \<Rightarrow> f x)"

text \<open>\<open>ToBoolean\<close>, the test of an \<open>if\<close>.\<close>

fun truthy :: "jsval \<Rightarrow> bool" where
  "truthy JUndefined = False"
| "truthy JNull = False"
| "truthy (JBool b) = b"
| "truthy (JNum r) = (r \<noteq> 0)"
| "truthy JNaN = False"
| "truthy (JStr s) = (s \<noteq> [])"
| "truthy (JObj fs) = True"

text \<open>
  The member access \<open>v.k\<close>, for the field names this file reads (none of them is a
  member of a primitive's prototype): a \<open>TypeError\<close> on \<open>undefined\<close> and \<open>null\<close>,
  \<open>undefined\<close> for a field that is not there.
\<close>

fun member :: "jsval \<Rightarrow> string \<Rightarrow> error + jsval" where
  "member JUndefined k = Inl TypeError"
| "member JNull k = Inl TypeError"
| "member (JObj fs) k = Inr (case map_of fs k of None \<Rightarrow> JUndefined | Some v \<Rightarrow> v)"
| "member v k = Inr JUndefined"

text \<open>A chain of member accesses \<open>v.k1.k2\<close>, evaluated left to right.\<close>

fun path :: "jsval \<Rightarrow> string list \<Rightarrow> error + jsval" where
  "path v [] = Inr v"
| "path v (k # ks) = and_then (member v k) (\<lambda>w. path w ks)"

text \<open>\<open>typeof v === 'number'\<close>; NaN is a number.\<close>

fun is_number :: "jsval \<Rightarrow> bool" where
  "is_number (JNum r) = True"
| "is_number JNaN = True"
| "is_number v = False"

subsection \<open>ToString and parseInt\<close>

definition digit_char :: "nat \<Rightarrow> char" where
  "digit_char n = ''0123456789'' ! (n mod 10)"

fun nat_to_string :: "nat \<Rightarrow> string" where
  "nat_to_string n =
     (if n < 10 then [digit_char n] else nat_to_string (n div 10) @ [digit_char (n mod 10)])"

declare nat_to_string.simps [simp del]

definition int_to_string :: "int \<Rightarrow> string" where
  "int_to_string i =
     (if i < 0 then CHR ''-'' # nat_to_string (nat (- i)) else nat_to_string (nat i))"

text \<open>
  \<open>Number::toString\<close>: an integer of magnitude below \<open>10^21\<close> is written in decimal
  digits. For every other number the digits come from the binary64 representation,
  which the model does not have: that part is the parameter \<open>fmt\<close>.
\<close>

definition number_to_string :: "(rat \<Rightarrow> string) \<Rightarrow> rat \<Rightarrow> string" where
  "number_to_string fmt r =
     (if of_int \<lfloor>r\<rfloor> = r \<and> \<bar>r\<bar> < 10 ^ 21 then int_to_string \<lfloor>r\<rfloor> else fmt r)"

text \<open>\<open>ToString\<close>, as a template literal and \<open>parseInt\<close> apply it.\<close>

fun ToString :: "(rat \<Rightarrow> string) \<Rightarrow> jsval \<Rightarrow> string" where
  "ToString fmt JUndefined = ''undefined''"
| "ToString fmt JNull = ''null''"
| "ToString fmt (JBool b) = (if b then ''true'' else ''false'')"
| "ToString fmt (JNum r) = number_to_string fmt r"
| "ToString fmt JNaN = ''NaN''"
| "ToString fmt (JStr s) = s"
| "ToString fmt (JObj fs) = ''[object Object]''"

text \<open>The white space \<open>parseInt\<close> skips, within ASCII: TAB, LF, VT, FF, CR, space.\<close>

definition is_white_space :: "char \<Rightarrow> bool" where
  "is_white_space c = (of_char c \<in> {9, 10, 11, 12, 13, 32 :: nat})"

definition digit_value :: "char \<Rightarrow> nat option" where
  "digit_value c =
     map_of [(CHR ''0'', 0), (CHR ''1'', 1), (CHR ''2'', 2), (CHR ''3'', 3), (CHR ''4'', 4),
             (CHR ''5'', 5), (CHR ''6'', 6), (CHR ''7'', 7), (CHR ''8'', 8), (CHR ''9'', 9)] c"

definition is_digit :: "char \<Rightarrow> bool" where
  "is_digit c = (digit_value c \<noteq> None)"

definition digits_value :: "string \<Rightarrow> nat" where
  "digits_value z =
     foldl (\<lambda>a c. case digit_value c of Some d \<Rightarrow> 10 * a + d | None \<Rightarrow> a) 0 z"

text \<open>
  \<open>parseInt(string, 10)\<close> on a string: skip the leading white space, read an optional
  sign, take the longest prefix of decimal digits; no digit gives NaN.
\<close>

definition parse_decimal :: "string \<Rightarrow> jsval" where
  "parse_decimal s =
     (let s1 = dropWhile is_white_space s;
          sign = (case s1 of c # r \<Rightarrow> if c = CHR ''-'' then - 1 else 1 | [] \<Rightarrow> (1 :: int));
          s2 = (case s1 of c # r \<Rightarrow> if c = CHR ''-'' \<or> c = CHR ''+'' then r else s1 | [] \<Rightarrow> s1);
          z = takeWhile is_digit s2
      in if z = [] then JNaN else JNum (of_int (sign * int (digits_value z))))"

definition parseInt :: "(rat \<Rightarrow> string) \<Rightarrow> jsval \<Rightarrow> jsval" where
  "parseInt fmt v = parse_decimal (ToString fmt v)"

subsection \<open>Strings and buffers\<close>

text \<open>\<open>s.split(c)\<close> for a one-character separator: never empty.\<close>

fun split_on :: "char \<Rightarrow> string \<Rightarrow> string list" where
  "split_on c [] = [[]]"
| "split_on c (x # xs) =
     (if x = c then [] # split_on c xs
      else (case split_on c xs of p # ps \<Rightarrow> (x # p) # ps | [] \<Rightarrow> [[x]]))"

text \<open>
  \<open>buffer.toString('base64')\<close> on a Node \<open>Buffer\<close>: three bytes make four characters
  of the standard alphabet, and the last group is padded with \<open>=\<close>.
\<close>

definition base64_char :: "nat \<Rightarrow> char" where
  "base64_char n =
     ''ABCDEFGHIJKLMNOPQRSTUVWXYZabcdefghijklmnopqrstuvwxyz0123456789+/'' ! (n mod 64)"

fun base64 :: "8 word list \<Rightarrow> string" where
  "base64 [] = []"
| "base64 [a] =
     [base64_char (unat a div 4), base64_char (unat a mod 4 * 16), CHR ''='', CHR ''='']"
| "base64 [a, b] =
     [base64_char (unat a div 4), base64_char (unat a mod 4 * 16 + unat b div 16),
      base64_char (unat b mod 16 * 4), CHR ''='']"
| "base64 (a # b # c # bs) =
     [base64_char (unat a div 4), base64_char (unat a mod 4 * 16 + unat b div 16),
      base64_char (unat b mod 16 * 4 + unat c div 64), base64_char (unat c mod 64)]
     @ base64 bs"

subsection \<open>Properties\<close>

record descr =
  label :: string
  ptype :: string
  readOnly :: bool

record property =
  pname :: string
  pdescr :: descr
  pvalue :: jsval

text \<open>
  Modelled from the spec: the class \<open>OnvifProperty\<close> of lib/onvif-property.js, which is
  not among the sources. The spec's data model gives a property a name, its display
  metadata (label, value type, read-only flag) and a cached value; the constructor
  takes the name, the metadata and the first cached value.
\<close>

definition OnvifProperty :: "string \<Rightarrow> descr \<Rightarrow> jsval \<Rightarrow> property" where
  "OnvifProperty n d v = \<lparr>pname = n, pdescr = d, pvalue = v\<rparr>"

text \<open>
  Modelled from the spec: \<open>setCachedValue\<close>, which \<open>OnvifProperty\<close> has from the host's
  property class, stores the new cached value.
\<close>

definition setCachedValue :: "property \<Rightarrow> jsval \<Rightarrow> property" where
  "setCachedValue p v = p\<lparr>pvalue := v\<rparr>"

subsection \<open>The camera, the device and the events\<close>

record velocity =
  vel_x :: jsval
  vel_y :: jsval
  vel_z :: jsval

text \<open>
  The camera's PTZ interface: what the promise of each call settles to. The camera
  object answers \<open>getInformation()\<close> and \<open>getDefaultProfile()\<close> with data; its \<open>ptz\<close>
  member may be \<open>undefined\<close> (\<open>None\<close>).
\<close>

record ptz_interface =
  continuousMove :: "jsval \<Rightarrow> velocity \<Rightarrow> jsval \<Rightarrow> unit promise"
  stop :: "unit promise"

record camera =
  getInformation :: jsval
  getDefaultProfile :: jsval
  ptz :: "ptz_interface option"

record discovery =
  urn :: string
  name :: string

text \<open>The metadata \<open>addAction\<close> is given: a label and, for \<open>move\<close>, an input schema.\<close>

record number_schema =
  schema_type :: string
  minimum :: "rat option"
  maximum :: "rat option"
  unit_name :: "string option"

record input_schema =
  input_type :: string
  required :: "string list"
  input_properties :: "(string \<times> number_schema) list"

record action_descr =
  action_label :: string
  action_input :: "input_schema option"

record device =
  dev_id :: string
  dev_urn :: string
  dev_name :: string
  description :: string
  at_context :: string
  at_type :: "string list"
  properties :: "string \<rightharpoonup> property"
  actions :: "string \<rightharpoonup> action_descr"
  dev_camera :: camera

record action =
  action_name :: string
  input :: jsval
  status :: jsval

text \<open>
  The calls this file makes into its collaborators, in the order it makes them: the
  methods of an \<open>Action\<close>, the host's notifications, the camera's operations, the
  writes of a property's cached value, and the console.
\<close>

datatype event =
    ActionStart
  | ActionFinish
  | ActionNotify action
  | PtzContinuousMove jsval velocity jsval
  | PtzStop
  | GetSnapshot
  | SetCachedValue string jsval
  | NotifyPropertyChanged property
  | ConsoleError string error

text \<open>The events that are operations of the camera (PTZ or snapshot).\<close>

fun is_camera_call :: "event \<Rightarrow> bool" where
  "is_camera_call (PtzContinuousMove f v t) = True"
| "is_camera_call PtzStop = True"
| "is_camera_call GetSnapshot = True"
| "is_camera_call e = False"

subsection \<open>The constructor\<close>

definition read_only :: "string \<Rightarrow> string \<Rightarrow> descr" where
  "read_only l t = \<lparr>label = l, ptype = t, readOnly = True\<rparr>"

text \<open>
  Lines 43 to 149: the stream URL, the five video properties and the two snapshot
  properties. A member access on a block that is missing throws, and the
  constructor with it.
\<close>

definition base_properties :: "(rat \<Rightarrow> string) \<Rightarrow> jsval \<Rightarrow> error + (string \<rightharpoonup> property)" where
  "base_properties fmt profile =
     and_then (path profile [''StreamUri'', ''Uri'']) (\<lambda>uri.
     and_then (path profile [''VideoEncoderConfiguration'', ''Encoding'']) (\<lambda>encoding.
     and_then (path profile [''VideoEncoderConfiguration'', ''Resolution'', ''Width'']) (\<lambda>width.
     and_then (path profile [''VideoEncoderConfiguration'', ''Resolution'', ''Height'']) (\<lambda>height.
     and_then (path profile [''VideoEncoderConfiguration'', ''RateControl'', ''BitrateLimit''])
       (\<lambda>bitrate.
     and_then (path profile [''VideoEncoderConfiguration'', ''RateControl'', ''FrameRateLimit''])
       (\<lambda>framerate.
     and_then (path profile [''VideoEncoderConfiguration'', ''Quality'']) (\<lambda>quality.
     Inr (Map.empty
       (''streamUrl'' \<mapsto> OnvifProperty ''streamUrl'' (read_only ''Stream URL'' ''string'') uri,
        ''videoEncoding'' \<mapsto>
           OnvifProperty ''videoEncoding'' (read_only ''Video Encoding'' ''string'') encoding,
        ''videoResolution'' \<mapsto>
           OnvifProperty ''videoResolution'' (read_only ''Video Resolution'' ''string'')
             (JStr (ToString fmt width @ ''x'' @ ToString fmt height)),
        ''videoBitRate'' \<mapsto>
           OnvifProperty ''videoBitRate'' (read_only ''Video Bit Rate'' ''number'')
             (parseInt fmt bitrate),
        ''videoFrameRate'' \<mapsto>
           OnvifProperty ''videoFrameRate'' (read_only ''Video Frame Rate'' ''number'')
             (parseInt fmt framerate),
        ''videoQuality'' \<mapsto>
           OnvifProperty ''videoQuality'' (read_only ''Video Quality'' ''number'')
             (parseInt fmt quality),
        ''snapshotMimeType'' \<mapsto>
           OnvifProperty ''snapshotMimeType'' (read_only ''Snapshot MIME Type'' ''string'') JNull,
        ''snapshot'' \<mapsto>
           OnvifProperty ''snapshot'' (read_only ''Snapshot'' ''binary'') JNull)))))))))"

text \<open>Lines 151 to 191: the audio properties, under the test of the audio block.\<close>

definition audio_properties ::
  "(rat \<Rightarrow> string) \<Rightarrow> jsval \<Rightarrow> (string \<rightharpoonup> property) \<Rightarrow> error + (string \<rightharpoonup> property)" where
  "audio_properties fmt profile props =
     and_then (member profile ''AudioEncoderConfiguration'') (\<lambda>audio.
       if truthy audio then
         and_then (path profile [''AudioEncoderConfiguration'', ''Encoding'']) (\<lambda>encoding.
         and_then (path profile [''AudioEncoderConfiguration'', ''Bitrate'']) (\<lambda>bitrate.
         and_then (path profile [''AudioEncoderConfiguration'', ''SampleRate'']) (\<lambda>rate.
         Inr (props
           (''audioEncoding'' \<mapsto>
              OnvifProperty ''audioEncoding'' (read_only ''Audio Encoding'' ''string'') encoding,
            ''audioBitRate'' \<mapsto>
              OnvifProperty ''audioBitRate'' (read_only ''Audio Bit Rate'' ''number'')
                (parseInt fmt bitrate),
            ''audioSampleRate'' \<mapsto>
              OnvifProperty ''audioSampleRate'' (read_only ''Audio Sample Rate'' ''number'')
                (parseInt fmt rate)))))) 
       else Inr props)"

text \<open>Lines 193 to 236: the two actions, registered when the camera has PTZ.\<close>

definition speed_schema :: number_schema where
  "speed_schema =
     \<lparr>schema_type = ''number'', minimum = Some (- 1), maximum = Some 1, unit_name = None\<rparr>"

definition timeout_schema :: number_schema where
  "timeout_schema =
     \<lparr>schema_type = ''number'', minimum = Some 0, maximum = None, unit_name = Some ''seconds''\<rparr>"

definition move_descr :: action_descr where
  "move_descr =
     \<lparr>action_label = ''Move'',
      action_input = Some
        \<lparr>input_type = ''object'',
         required = [''speedX'', ''speedY'', ''speedZ''],
         input_properties =
           [(''speedX'', speed_schema), (''speedY'', speed_schema), (''speedZ'', speed_schema),
            (''timeout'', timeout_schema)]\<rparr>\<rparr>"

definition stop_descr :: action_descr where
  "stop_descr = \<lparr>action_label = ''Stop'', action_input = None\<rparr>"

definition ptz_actions :: "camera \<Rightarrow> (string \<rightharpoonup> action_descr)" where
  "ptz_actions cam =
     (case ptz cam of
        None \<Rightarrow> Map.empty
      | Some p \<Rightarrow> [''move'' \<mapsto> move_descr, ''stop'' \<mapsto> stop_descr])"

text \<open>
  The constructor: the identifier is made of the last part of the URN, the
  description of the camera's information, and the properties and actions are the
  ones above. It throws where a member access does. The call \<open>camera.add('snapshot')\<close>
  of line 36 gives the camera the snapshot interface the poller calls. The block of
  lines 238 to 251 (the placeholder for the camera's events) only logs, and the timer
  of line 253 is the function \<open>tick\<close> below, run once for every fetch that settles.
\<close>

definition OnvifDevice :: "(rat \<Rightarrow> string) \<Rightarrow> discovery \<Rightarrow> camera \<Rightarrow> error + device" where
  "OnvifDevice fmt data cam =
     (let ident = ''onvif-'' @ last (split_on CHR '':'' (urn data));
          info = getInformation cam
      in and_then (member info ''Manufacturer'') (\<lambda>manufacturer.
         and_then (member info ''Model'') (\<lambda>model.
         let profile = getDefaultProfile cam
         in and_then (base_properties fmt profile) (\<lambda>props.
            and_then (audio_properties fmt profile props) (\<lambda>props'.
            Inr \<lparr>dev_id = ident,
                 dev_urn = urn data,
                 dev_name = name data,
                 description = ToString fmt manufacturer @ '' '' @ ToString fmt model,
                 at_context = ''https://iot.mozilla.org/schemas'',
                 at_type = [],
                 properties = props',
                 actions = ptz_actions cam,
                 dev_camera = cam\<rparr>)))))"

subsection \<open>The snapshot poller\<close>

text \<open>
  What \<open>getSnapshot()\<close> resolves with: a MIME type, which the code passes on and
  stores as it comes, whatever value it is, and the image in a buffer.
\<close>

record snapshot_response =
  res_mimeType :: jsval
  image :: "8 word list"

record snapshot_result =
  mimeType :: jsval
  buffer :: "8 word list"

text \<open>The method \<open>snapshot\<close>, given how the camera's \<open>getSnapshot()\<close> settles.\<close>

definition snapshot :: "snapshot_response promise \<Rightarrow> snapshot_result promise" where
  "snapshot r =
     (case r of
        Fulfilled res \<Rightarrow> Fulfilled \<lparr>mimeType = res_mimeType res, buffer = image res\<rparr>
      | Rejected e \<Rightarrow> Rejected e)"

text \<open>
  Lines 254 to 263, the callback of \<open>then\<close>: the device after it, the calls it made,
  and the error it threw, if any (\<open>properties.get\<close> of a name that is not registered
  is \<open>undefined\<close>, and reading its value throws).
\<close>

definition on_snapshot :: "device \<Rightarrow> snapshot_result \<Rightarrow> device \<times> event list \<times> error option" where
  "on_snapshot d s =
     (case properties d ''snapshotMimeType'' of
        None \<Rightarrow> (d, [], Some TypeError)
      | Some mime \<Rightarrow>
          (let (d1, ev1) =
                 (if pvalue mime = JNull
                  then (let mime' = setCachedValue mime (mimeType s)
                        in (d\<lparr>properties := (properties d)(''snapshotMimeType'' \<mapsto> mime')\<rparr>,
                            [SetCachedValue ''snapshotMimeType'' (mimeType s),
                             NotifyPropertyChanged mime']))
                  else (d, []))
           in case properties d1 ''snapshot'' of
                None \<Rightarrow> (d1, ev1, Some TypeError)
              | Some snap \<Rightarrow>
                  (let snap' = setCachedValue snap (JStr (base64 (buffer s)))
                   in (d1\<lparr>properties := (properties d1)(''snapshot'' \<mapsto> snap')\<rparr>,
                       ev1 @ [SetCachedValue ''snapshot'' (JStr (base64 (buffer s))),
                              NotifyPropertyChanged snap'],
                       None))))"

text \<open>
  One run of the timer's callback, given how the fetch settles: the device after it,
  the calls made, and how the chain \<open>snapshot().then(...).catch(...)\<close> settles.
\<close>

definition tick :: "device \<Rightarrow> snapshot_response promise \<Rightarrow> device \<times> event list \<times> unit promise" where
  "tick d r =
     (case snapshot r of
        Rejected e \<Rightarrow>
          (d, [GetSnapshot, ConsoleError ''Error fetching snapshot: '' e], Fulfilled ())
      | Fulfilled s \<Rightarrow>
          (case on_snapshot d s of
             (d', ev, None) \<Rightarrow> (d', GetSnapshot # ev, Fulfilled ())
           | (d', ev, Some e) \<Rightarrow>
               (d', GetSnapshot # ev @ [ConsoleError ''Error fetching snapshot: '' e],
                Fulfilled ())))"

text \<open>
  The device's lifetime: the callbacks run one at a time, in the order in which the
  fetches settle.
\<close>

fun run_poller :: "device \<Rightarrow> snapshot_response promise list \<Rightarrow> device \<times> event list" where
  "run_poller d [] = (d, [])"
| "run_poller d (r # rs) =
     (case tick d r of
        (d1, ev1, p) \<Rightarrow> (case run_poller d1 rs of (d2, ev2) \<Rightarrow> (d2, ev1 @ ev2)))"

subsection \<open>performAction\<close>

text \<open>
  A call either throws before it returns or returns a promise. The result carries
  the action after the call and the calls made. The methods \<open>start\<close> and \<open>finish\<close>
  belong to the host's \<open>Action\<close>: they are events here, and the status of the action
  in the model changes only where this file assigns it.
\<close>

datatype outcome = Threw error | Returned "unit promise"

text \<open>
  Lines 295 to 304: the velocity and the timeout, read from the action's input. The
  first member access throws when the action has no input.
\<close>

definition move_arguments :: "jsval \<Rightarrow> error + (velocity \<times> jsval)" where
  "move_arguments i =
     and_then (member i ''speedX'') (\<lambda>sx.
     and_then (member i ''speedY'') (\<lambda>sy.
     and_then (member i ''speedZ'') (\<lambda>sz.
     and_then (member i ''timeout'') (\<lambda>t.
     Inr (\<lparr>vel_x = sx, vel_y = sy, vel_z = sz\<rparr>, if is_number t then t else JNull)))))"

text \<open>
  The method, lines 290 to 329. In the branches of \<open>move\<close> and \<open>stop\<close> the action is
  started first; then \<open>this.camera.ptz\<close> is used without a test, and throws when the
  camera has no PTZ; the callback of \<open>then\<close> finishes the action, and the callback of
  \<open>catch\<close> logs the reason, sets the status and notifies.
\<close>

definition performAction :: "device \<Rightarrow> action \<Rightarrow> outcome \<times> action \<times> event list" where
  "performAction d a =
     (if action_name a = ''move'' then
        (case move_arguments (input a) of
           Inl e \<Rightarrow> (Threw e, a, [ActionStart])
         | Inr (v, timeout) \<Rightarrow>
             (case ptz (dev_camera d) of
                None \<Rightarrow> (Threw TypeError, a, [ActionStart])
              | Some p \<Rightarrow>
                  (case continuousMove p JNull v timeout of
                     Fulfilled u \<Rightarrow>
                       (Returned (Fulfilled ()), a,
                        [ActionStart, PtzContinuousMove JNull v timeout, ActionFinish])
                   | Rejected e \<Rightarrow>
                       (let a' = a\<lparr>status := JStr ''error''\<rparr>
                        in (Returned (Fulfilled ()), a',
                            [ActionStart, PtzContinuousMove JNull v timeout,
                             ConsoleError ''Failed to move camera: '' e, ActionNotify a'])))))
      else if action_name a = ''stop'' then
        (case ptz (dev_camera d) of
           None \<Rightarrow> (Threw TypeError, a, [ActionStart])
         | Some p \<Rightarrow>
             (case stop p of
                Fulfilled u \<Rightarrow> (Returned (Fulfilled ()), a, [ActionStart, PtzStop, ActionFinish])
              | Rejected e \<Rightarrow>
                  (let a' = a\<lparr>status := JStr ''error''\<rparr>
                   in (Returned (Fulfilled ()), a',
                       [ActionStart, PtzStop, ConsoleError ''Failed to stop camera: '' e,
                        ActionNotify a']))))
      else
        (let a' = a\<lparr>status := JStr ''error''\<rparr>
         in (Returned (Fulfilled ()), a', [ActionNotify a'])))"

section \<open>Vocabulary of the properties\<close>

text \<open>The three audio properties.\<close>

definition audio_names :: "string set" where
  "audio_names = {''audioEncoding'', ''audioBitRate'', ''audioSampleRate''}"

text \<open>
  Counting in a list of events: the writes of the MIME type property, the events on
  any property (a write or a change notification), the action notifications.
\<close>

fun is_mime_write :: "event \<Rightarrow> bool" where
  "is_mime_write (SetCachedValue k v) = (k = ''snapshotMimeType'')"
| "is_mime_write e = False"

definition mime_writes :: "event list \<Rightarrow> nat" where
  "mime_writes evs = length (filter is_mime_write evs)"

fun is_property_event :: "event \<Rightarrow> bool" where
  "is_property_event (SetCachedValue k v) = True"
| "is_property_event (NotifyPropertyChanged p) = True"
| "is_property_event e = False"

fun is_action_notify :: "event \<Rightarrow> bool" where
  "is_action_notify (ActionNotify a) = True"
| "is_action_notify e = False"

text \<open>
  What a number schema's \<open>minimum\<close> and \<open>maximum\<close> ask of a value: a number inside
  the bounds that are given.
\<close>

definition in_bounds :: "number_schema \<Rightarrow> jsval \<Rightarrow> bool" where
  "in_bounds sch v =
     (case v of
        JNum r \<Rightarrow>
          (case minimum sch of None \<Rightarrow> True | Some lo \<Rightarrow> lo \<le> r) \<and>
          (case maximum sch of None \<Rightarrow> True | Some hi \<Rightarrow> r \<le> hi)
      | _ \<Rightarrow> False)"

text \<open>The field \<open>k\<close> of an object with the fields \<open>fs\<close>.\<close>

definition field :: "(string \<times> jsval) list \<Rightarrow> string \<Rightarrow> jsval" where
  "field fs k = (case map_of fs k of None \<Rightarrow> JUndefined | Some v \<Rightarrow> v)"

text \<open>
  The MIME type is settled once the poller can no longer write it: the property holds
  a value other than \<open>null\<close> (or is not registered at all).
\<close>

definition mime_settled :: "device \<Rightarrow> bool" where
  "mime_settled d =
     (case properties d ''snapshotMimeType'' of None \<Rightarrow> True | Some m \<Rightarrow> pvalue m \<noteq> JNull)"

text \<open>Both properties the poller reads are registered.\<close>

definition snapshot_registered :: "device \<Rightarrow> bool" where
  "snapshot_registered d =
     (properties d ''snapshotMimeType'' \<noteq> None \<and> properties d ''snapshot'' \<noteq> None)"

section \<open>Example inputs\<close>

text \<open>
  A camera with the video encoder configuration of the spec's example, with further
  profile fields \<open>extra\<close> and with or without PTZ, and the device the constructor
  makes of it.
\<close>

definition example_video :: jsval where
  "example_video =
     JObj [(''Encoding'', JStr ''H264''),
           (''Resolution'', JObj [(''Width'', JNum 1920), (''Height'', JNum 1080)]),
           (''RateControl'', JObj [(''BitrateLimit'', JStr ''4096''), (''FrameRateLimit'', JStr ''30'')]),
           (''Quality'', JStr ''5.0'')]"

definition example_audio :: jsval where
  "example_audio =
     JObj [(''Encoding'', JStr ''AAC''), (''Bitrate'', JStr ''64''), (''SampleRate'', JStr ''16'')]"

definition example_ptz :: ptz_interface where
  "example_ptz = \<lparr>continuousMove = (\<lambda>f v t. Fulfilled ()), stop = Fulfilled ()\<rparr>"

definition failing_ptz :: ptz_interface where
  "failing_ptz =
     \<lparr>continuousMove = (\<lambda>f v t. Rejected (Failure ''Error: timeout'')),
      stop = Rejected (Failure ''Error: timeout'')\<rparr>"

definition example_camera :: "(string \<times> jsval) list \<Rightarrow> ptz_interface option \<Rightarrow> camera" where
  "example_camera extra p =
     \<lparr>getInformation = JObj [(''Manufacturer'', JStr ''Acme''), (''Model'', JStr ''Dome 2'')],
      getDefaultProfile =
        JObj ([(''StreamUri'', JObj [(''Uri'', JStr ''rtsp://10.0.0.7/stream1'')]),
               (''VideoEncoderConfiguration'', example_video)] @ extra),
      ptz = p\<rparr>"

definition example_data :: discovery where
  "example_data = \<lparr>urn = ''urn:uuid:4f5a'', name = ''Front door''\<rparr>"

definition example_properties :: "string \<rightharpoonup> property" where
  "example_properties = Map.empty
     (''streamUrl'' \<mapsto>
        OnvifProperty ''streamUrl'' (read_only ''Stream URL'' ''string'')
          (JStr ''rtsp://10.0.0.7/stream1''),
      ''videoEncoding'' \<mapsto>
        OnvifProperty ''videoEncoding'' (read_only ''Video Encoding'' ''string'') (JStr ''H264''),
      ''videoResolution'' \<mapsto>
        OnvifProperty ''videoResolution'' (read_only ''Video Resolution'' ''string'')
          (JStr ''1920x1080''),
      ''videoBitRate'' \<mapsto>
        OnvifProperty ''videoBitRate'' (read_only ''Video Bit Rate'' ''number'') (JNum 4096),
      ''videoFrameRate'' \<mapsto>
        OnvifProperty ''videoFrameRate'' (read_only ''Video Frame Rate'' ''number'') (JNum 30),
      ''videoQuality'' \<mapsto>
        OnvifProperty ''videoQuality'' (read_only ''Video Quality'' ''number'') (JNum 5),
      ''snapshotMimeType'' \<mapsto>
        OnvifProperty ''snapshotMimeType'' (read_only ''Snapshot MIME Type'' ''string'') JNull,
      ''snapshot'' \<mapsto>
        OnvifProperty ''snapshot'' (read_only ''Snapshot'' ''binary'') JNull)"

definition example_device :: "ptz_interface option \<Rightarrow> device" where
  "example_device p =
     \<lparr>dev_id = ''onvif-4f5a'',
      dev_urn = ''urn:uuid:4f5a'',
      dev_name = ''Front door'',
      description = ''Acme Dome 2'',
      at_context = ''https://iot.mozilla.org/schemas'',
      at_type = [],
      properties = example_properties,
      actions = ptz_actions (example_camera [] p),
      dev_camera = example_camera [] p\<rparr>"

definition example_move :: "rat \<Rightarrow> rat \<Rightarrow> rat \<Rightarrow> rat \<Rightarrow> action" where
  "example_move sx sy sz t =
     \<lparr>action_name = ''move'',
      input = JObj [(''speedX'', JNum sx), (''speedY'', JNum sy), (''speedZ'', JNum sz),
                    (''timeout'', JNum t)],
      status = JStr ''created''\<rparr>"

definition example_fast_move :: action where
  "example_fast_move =
     \<lparr>action_name = ''move'', input = JObj [(''speedX'', JNum 3), (''timeout'', JStr ''soon'')],
      status = JStr ''created''\<rparr>"

definition example_action :: "string \<Rightarrow> action" where
  "example_action n = \<lparr>action_name = n, input = JUndefined, status = JStr ''created''\<rparr>"

definition png_response :: snapshot_response where
  "png_response = \<lparr>res_mimeType = JStr ''image/png'', image = [77, 97, 110]\<rparr>"

definition jpeg_response :: snapshot_response where
  "jpeg_response = \<lparr>res_mimeType = JStr ''image/jpeg'', image = [77, 97]\<rparr>"

text \<open>A fetch that succeeds and reports \<open>null\<close> as its MIME type.\<close>

definition null_response :: snapshot_response where
  "null_response = \<lparr>res_mimeType = JNull, image = [77, 97, 110]\<rparr>"

section \<open>The constructor's properties\<close>

subsection \<open>Sequencing\<close>

lemma and_then_simps [simp]:
  "and_then (Inr x) f = f x" "and_then (Inl e) f = Inl e"
  by (simp_all add: and_then_def)

lemma and_then_Inr:
  "and_then m f = Inr y \<longleftrightarrow> (\<exists>x. m = Inr x \<and> f x = Inr y)"
  by (cases m) simp_all

lemma and_thenE:
  assumes "and_then m f = Inr y"
  obtains x where "m = Inr x" and "f x = Inr y"
  using assms by (cases m) simp_all

lemma path_member:
  "member v k = Inr w \<Longrightarrow> path v (k # ks) = path w ks"
  by simp

subsection \<open>What the constructor registers\<close>

lemma base_properties_no_audio:
  assumes "base_properties fmt profile = Inr props"
  shows "props ''audioEncoding'' = None \<and> props ''audioBitRate'' = None
       \<and> props ''audioSampleRate'' = None"
  using assms unfolding base_properties_def by (elim and_thenE) auto

lemma base_properties_member:
  assumes "base_properties fmt profile = Inr props"
  shows "\<exists>a. member profile ''AudioEncoderConfiguration'' = Inr a"
  using assms by (cases profile) (simp_all add: base_properties_def)

lemma audio_properties_truthy:
  assumes "audio_properties fmt profile props = Inr props'"
      and "member profile ''AudioEncoderConfiguration'' = Inr a"
      and "truthy a"
  shows "props' ''audioEncoding'' \<noteq> None \<and> props' ''audioBitRate'' \<noteq> None
       \<and> props' ''audioSampleRate'' \<noteq> None"
  using assms by (auto simp: audio_properties_def and_then_Inr)

lemma audio_properties_falsy:
  assumes "audio_properties fmt profile props = Inr props'"
      and "member profile ''AudioEncoderConfiguration'' = Inr a"
      and "\<not> truthy a"
  shows "props' = props"
  using assms by (simp add: audio_properties_def)

lemma audio_properties_total:
  assumes "member profile ''AudioEncoderConfiguration'' = Inr a"
  shows "\<exists>props'. audio_properties fmt profile props = Inr props'"
proof (cases "truthy a")
  case True
  then obtain e b r where "member a ''Encoding'' = Inr e" "member a ''Bitrate'' = Inr b"
    "member a ''SampleRate'' = Inr r"
    by (cases a) simp_all
  with assms True show ?thesis by (simp add: audio_properties_def)
next
  case False
  with assms show ?thesis by (simp add: audio_properties_def)
qed

lemma audio_properties_other:
  assumes "audio_properties fmt profile props = Inr props'"
      and "k \<noteq> ''audioEncoding''" "k \<noteq> ''audioBitRate''" "k \<noteq> ''audioSampleRate''"
  shows "props' k = props k"
  using assms by (auto simp: audio_properties_def and_then_Inr split: if_splits)

lemma OnvifDevice_properties:
  assumes "OnvifDevice fmt data cam = Inr d"
  shows "\<exists>props. base_properties fmt (getDefaultProfile cam) = Inr props \<and>
           audio_properties fmt (getDefaultProfile cam) props = Inr (properties d)"
  using assms unfolding OnvifDevice_def Let_def by (elim and_thenE) auto

lemma OnvifDevice_total:
  assumes "getInformation cam \<noteq> JUndefined" and "getInformation cam \<noteq> JNull"
      and "base_properties fmt (getDefaultProfile cam) = Inr props"
  shows "\<exists>d props'. OnvifDevice fmt data cam = Inr d \<and> properties d = props'
       \<and> audio_properties fmt (getDefaultProfile cam) props = Inr props'"
proof -
  from assms(1,2) obtain ma mo where
    i: "member (getInformation cam) ''Manufacturer'' = Inr ma"
       "member (getInformation cam) ''Model'' = Inr mo"
    by (cases "getInformation cam") simp_all
  from base_properties_member [OF assms(3)] obtain a where
    "member (getDefaultProfile cam) ''AudioEncoderConfiguration'' = Inr a" by blast
  from audio_properties_total [OF this] obtain props' where
    a: "audio_properties fmt (getDefaultProfile cam) props = Inr props'" by blast
  show ?thesis
    by (simp add: OnvifDevice_def Let_def i assms(3) a)
qed

lemma constructed_actions:
  assumes "OnvifDevice fmt data cam = Inr d"
  shows "actions d = ptz_actions cam \<and> dev_camera d = cam"
  using assms unfolding OnvifDevice_def Let_def by (elim and_thenE) auto

lemma audio_names_subset:
  "audio_names \<subseteq> dom m \<longleftrightarrow>
     m ''audioEncoding'' \<noteq> None \<and> m ''audioBitRate'' \<noteq> None \<and> m ''audioSampleRate'' \<noteq> None"
  by (simp add: audio_names_def domIff)

lemma audio_names_disjoint:
  "audio_names \<inter> dom m = {} \<longleftrightarrow>
     m ''audioEncoding'' = None \<and> m ''audioBitRate'' = None \<and> m ''audioSampleRate'' = None"
  by (simp add: audio_names_def domIff)

lemma constructed_audio:
  assumes "OnvifDevice fmt data cam = Inr d"
  shows "\<exists>a. member (getDefaultProfile cam) ''AudioEncoderConfiguration'' = Inr a \<and>
           (if truthy a then audio_names \<subseteq> dom (properties d)
            else audio_names \<inter> dom (properties d) = {})"
proof -
  from assms obtain props where
    b: "base_properties fmt (getDefaultProfile cam) = Inr props" and
    a: "audio_properties fmt (getDefaultProfile cam) props = Inr (properties d)"
    using OnvifDevice_properties by blast
  from base_properties_member [OF b] obtain au where
    m: "member (getDefaultProfile cam) ''AudioEncoderConfiguration'' = Inr au" by blast
  show ?thesis
  proof (cases "truthy au")
    case True
    from audio_properties_truthy [OF a m True] m True show ?thesis
      by (simp add: audio_names_subset)
  next
    case False
    from audio_properties_falsy [OF a m False] base_properties_no_audio [OF b] m False
    show ?thesis by (simp add: audio_names_disjoint)
  qed
qed

text \<open>
  Claim C1. For every profile in which the audio encoder configuration block is
  present (the member \<open>AudioEncoderConfiguration\<close> is an object), the constructed
  device has all three audio properties, \<open>audioEncoding\<close>, \<open>audioBitRate\<close> and
  \<open>audioSampleRate\<close>; for every profile in which it is absent (the member is
  \<open>undefined\<close>), it has none of them; and whatever the member is, the device has
  either all three or none.
\<close>

theorem audio_properties_all_or_none:
  assumes "OnvifDevice fmt data cam = Inr d"
  shows "(\<forall>fs. member (getDefaultProfile cam) ''AudioEncoderConfiguration'' = Inr (JObj fs)
            \<longrightarrow> audio_names \<subseteq> dom (properties d))
       \<and> (member (getDefaultProfile cam) ''AudioEncoderConfiguration'' = Inr JUndefined
            \<longrightarrow> audio_names \<inter> dom (properties d) = {})
       \<and> (audio_names \<subseteq> dom (properties d) \<or> audio_names \<inter> dom (properties d) = {})"
proof -
  from constructed_audio [OF assms] obtain a where
    m: "member (getDefaultProfile cam) ''AudioEncoderConfiguration'' = Inr a" and
    c: "if truthy a then audio_names \<subseteq> dom (properties d)
        else audio_names \<inter> dom (properties d) = {}" by blast
  from m c show ?thesis by (cases "truthy a") auto
qed

subsection \<open>The example camera\<close>

lemmas parse_defs = parseInt_def parse_decimal_def is_white_space_def is_digit_def
  digit_value_def digits_value_def

lemmas to_string_defs = number_to_string_def int_to_string_def nat_to_string.simps digit_char_def

lemma example_video_base:
  assumes "path profile [''StreamUri'', ''Uri''] = Inr uri"
      and "member profile ''VideoEncoderConfiguration'' = Inr example_video"
  shows "\<exists>props. base_properties fmt profile = Inr props
       \<and> map_option pvalue (props ''videoEncoding'') = Some (JStr ''H264'')
       \<and> map_option pvalue (props ''videoResolution'') = Some (JStr ''1920x1080'')
       \<and> map_option pvalue (props ''videoBitRate'') = Some (JNum 4096)
       \<and> map_option pvalue (props ''videoFrameRate'') = Some (JNum 30)
       \<and> map_option pvalue (props ''videoQuality'') = Some (JNum 5)"
proof -
  have v: "path profile (''VideoEncoderConfiguration'' # ks) = path example_video ks" for ks
    using assms(2) by simp
  have e: "path example_video [''Encoding''] = Inr (JStr ''H264'')"
    and w: "path example_video [''Resolution'', ''Width''] = Inr (JNum 1920)"
    and h: "path example_video [''Resolution'', ''Height''] = Inr (JNum 1080)"
    and b: "path example_video [''RateControl'', ''BitrateLimit''] = Inr (JStr ''4096'')"
    and f: "path example_video [''RateControl'', ''FrameRateLimit''] = Inr (JStr ''30'')"
    and q: "path example_video [''Quality''] = Inr (JStr ''5.0'')"
    by (simp_all add: example_video_def)
  have r: "ToString fmt (JNum 1920) @ ''x'' @ ToString fmt (JNum 1080) = ''1920x1080''"
    by (simp add: to_string_defs)
  have p: "parseInt fmt (JStr ''4096'') = JNum 4096" "parseInt fmt (JStr ''30'') = JNum 30"
    "parseInt fmt (JStr ''5.0'') = JNum 5"
    by (simp_all add: parse_defs)
  show ?thesis
    unfolding base_properties_def v e w h b f q assms(1) r p and_then_simps
    by (simp add: OnvifProperty_def)
qed

lemma example_camera_constructed:
  "\<exists>d. OnvifDevice fmt example_data (example_camera extra p) = Inr d"
proof -
  have "path (getDefaultProfile (example_camera extra p)) [''StreamUri'', ''Uri'']
           = Inr (JStr ''rtsp://10.0.0.7/stream1'')"
    and "member (getDefaultProfile (example_camera extra p)) ''VideoEncoderConfiguration''
           = Inr example_video"
    by (simp_all add: example_camera_def)
  from example_video_base [OF this] obtain props where
    "base_properties fmt (getDefaultProfile (example_camera extra p)) = Inr props" by blast
  moreover have "getInformation (example_camera extra p) \<noteq> JUndefined"
    and "getInformation (example_camera extra p) \<noteq> JNull"
    by (simp_all add: example_camera_def)
  ultimately show ?thesis using OnvifDevice_total by blast
qed

lemma example_device_constructed:
  "OnvifDevice fmt example_data (example_camera [] p) = Inr (example_device p)"
proof -
  have r: "ToString fmt (JNum 1920) @ ''x'' @ ToString fmt (JNum 1080) = ''1920x1080''"
    by (simp add: to_string_defs)
  have q: "parseInt fmt (JStr ''4096'') = JNum 4096" "parseInt fmt (JStr ''30'') = JNum 30"
    "parseInt fmt (JStr ''5.0'') = JNum 5"
    by (simp_all add: parse_defs)
  have b: "base_properties fmt (getDefaultProfile (example_camera [] p)) = Inr example_properties"
    using r by (simp add: base_properties_def example_camera_def example_video_def q
        example_properties_def)
  have a: "audio_properties fmt (getDefaultProfile (example_camera [] p)) example_properties
             = Inr example_properties"
    by (simp add: audio_properties_def example_camera_def)
  have i: "member (getInformation (example_camera [] p)) ''Manufacturer'' = Inr (JStr ''Acme'')"
    "member (getInformation (example_camera [] p)) ''Model'' = Inr (JStr ''Dome 2'')"
    by (simp_all add: example_camera_def)
  show ?thesis
    by (simp add: OnvifDevice_def Let_def i b a example_device_def example_data_def)
qed

text \<open>
  The witness of C1: the example camera with an audio block has the three audio
  properties, the one without has none.
\<close>

theorem audio_properties_all_or_none_witness:
  "(\<exists>d. OnvifDevice (\<lambda>r. []) example_data
          (example_camera [(''AudioEncoderConfiguration'', example_audio)] None) = Inr d
        \<and> audio_names \<subseteq> dom (properties d))
 \<and> (\<exists>d. OnvifDevice (\<lambda>r. []) example_data (example_camera [] None) = Inr d
        \<and> audio_names \<inter> dom (properties d) = {})"
proof -
  obtain d1 where
    c1: "OnvifDevice (\<lambda>r. []) example_data
           (example_camera [(''AudioEncoderConfiguration'', example_audio)] None) = Inr d1"
    using example_camera_constructed by blast
  obtain d2 where
    c2: "OnvifDevice (\<lambda>r. []) example_data (example_camera [] None) = Inr d2"
    using example_camera_constructed by blast
  have "audio_names \<subseteq> dom (properties d1)"
    using audio_properties_all_or_none [OF c1]
    by (simp add: example_camera_def example_audio_def)
  moreover have "audio_names \<inter> dom (properties d2) = {}"
    using audio_properties_all_or_none [OF c2]
    by (simp add: example_camera_def)
  ultimately show ?thesis using c1 c2 by simp
qed

text \<open>
  Claim C7. For a profile whose video encoder configuration has Encoding \<open>"H264"\<close>,
  Resolution \<open>{Width: 1920, Height: 1080}\<close>, RateControl
  \<open>{BitrateLimit: "4096", FrameRateLimit: "30"}\<close> and Quality \<open>"5.0"\<close>, the
  construction succeeds (given the device information and the stream URI it also
  reads) and registers \<open>videoEncoding\<close> = \<open>"H264"\<close>, \<open>videoResolution\<close> =
  \<open>"1920x1080"\<close>, \<open>videoBitRate\<close> = 4096, \<open>videoFrameRate\<close> = 30 and
  \<open>videoQuality\<close> = 5.
\<close>

theorem example_video_properties:
  assumes "getInformation cam \<noteq> JUndefined" and "getInformation cam \<noteq> JNull"
      and "path (getDefaultProfile cam) [''StreamUri'', ''Uri''] = Inr uri"
      and "member (getDefaultProfile cam) ''VideoEncoderConfiguration'' = Inr example_video"
  shows "\<exists>d. OnvifDevice fmt data cam = Inr d
       \<and> map_option pvalue (properties d ''videoEncoding'') = Some (JStr ''H264'')
       \<and> map_option pvalue (properties d ''videoResolution'') = Some (JStr ''1920x1080'')
       \<and> map_option pvalue (properties d ''videoBitRate'') = Some (JNum 4096)
       \<and> map_option pvalue (properties d ''videoFrameRate'') = Some (JNum 30)
       \<and> map_option pvalue (properties d ''videoQuality'') = Some (JNum 5)"
proof -
  from example_video_base [OF assms(3,4)] obtain props where
    b: "base_properties fmt (getDefaultProfile cam) = Inr props" and
    v: "map_option pvalue (props ''videoEncoding'') = Some (JStr ''H264'')"
       "map_option pvalue (props ''videoResolution'') = Some (JStr ''1920x1080'')"
       "map_option pvalue (props ''videoBitRate'') = Some (JNum 4096)"
       "map_option pvalue (props ''videoFrameRate'') = Some (JNum 30)"
       "map_option pvalue (props ''videoQuality'') = Some (JNum 5)"
    by blast
  from OnvifDevice_total [OF assms(1,2) b] obtain d where
    c: "OnvifDevice fmt data cam = Inr d" and
    a: "audio_properties fmt (getDefaultProfile cam) props = Inr (properties d)"
    by blast
  have "properties d ''videoEncoding'' = props ''videoEncoding''"
    "properties d ''videoResolution'' = props ''videoResolution''"
    "properties d ''videoBitRate'' = props ''videoBitRate''"
    "properties d ''videoFrameRate'' = props ''videoFrameRate''"
    "properties d ''videoQuality'' = props ''videoQuality''"
    by (simp_all add: audio_properties_other [OF a])
  with c v show ?thesis by (simp del: map_option_eq_Some)
qed

text \<open>The witness of C7: the example camera.\<close>

theorem example_video_properties_witness:
  "\<exists>d. OnvifDevice (\<lambda>r. []) example_data (example_camera [] None) = Inr d
       \<and> map_option pvalue (properties d ''videoEncoding'') = Some (JStr ''H264'')
       \<and> map_option pvalue (properties d ''videoResolution'') = Some (JStr ''1920x1080'')
       \<and> map_option pvalue (properties d ''videoBitRate'') = Some (JNum 4096)
       \<and> map_option pvalue (properties d ''videoFrameRate'') = Some (JNum 30)
       \<and> map_option pvalue (properties d ''videoQuality'') = Some (JNum 5)"
proof -
  have "getInformation (example_camera [] None) \<noteq> JUndefined"
    and "getInformation (example_camera [] None) \<noteq> JNull"
    and "path (getDefaultProfile (example_camera [] None)) [''StreamUri'', ''Uri'']
           = Inr (JStr ''rtsp://10.0.0.7/stream1'')"
    and "member (getDefaultProfile (example_camera [] None)) ''VideoEncoderConfiguration''
           = Inr example_video"
    by (simp_all add: example_camera_def)
  then show ?thesis by (rule example_video_properties)
qed

section \<open>The snapshot poller's properties\<close>

subsection \<open>One tick\<close>

lemma tick_Rejected:
  "tick d (Rejected e) = (d, [GetSnapshot, ConsoleError ''Error fetching snapshot: '' e], Fulfilled ())"
  by (simp add: tick_def snapshot_def)

lemma tick_unregistered:
  assumes "properties d ''snapshotMimeType'' = None" and "tick d r = (d', ev, p)"
  shows "d' = d \<and> mime_writes ev = 0"
  using assms
  by (cases r) (auto simp: tick_def snapshot_def on_snapshot_def mime_writes_def)

lemma tick_already_set:
  assumes "properties d ''snapshotMimeType'' = Some m" and "pvalue m \<noteq> JNull"
      and "tick d r = (d', ev, p)"
  shows "properties d' ''snapshotMimeType'' = Some m \<and> mime_writes ev = 0"
  using assms
  by (cases r)
     (auto simp: tick_def snapshot_def on_snapshot_def mime_writes_def Let_def
           split: option.splits)

lemma tick_first_success:
  assumes "properties d ''snapshotMimeType'' = Some m" and "pvalue m = JNull"
      and "tick d (Fulfilled res) = (d', ev, p)"
  shows "properties d' ''snapshotMimeType'' = Some (setCachedValue m (res_mimeType res))
       \<and> mime_writes ev = 1"
  using assms
  by (auto simp: tick_def snapshot_def on_snapshot_def mime_writes_def Let_def
           split: option.splits)

lemma tick_settled:
  assumes "mime_settled d" and "tick d r = (d', ev, p)"
  shows "properties d' ''snapshotMimeType'' = properties d ''snapshotMimeType''
       \<and> mime_writes ev = 0"
proof (cases "properties d ''snapshotMimeType''")
  case None
  with tick_unregistered [OF None assms(2)] show ?thesis by simp
next
  case (Some m)
  with assms(1) have "pvalue m \<noteq> JNull" by (simp add: mime_settled_def)
  from tick_already_set [OF Some this assms(2)] Some show ?thesis by simp
qed

lemma tick_success_settles:
  assumes "tick d (Fulfilled res) = (d', ev, p)" and "res_mimeType res \<noteq> JNull"
  shows "mime_settled d'"
proof (cases "properties d ''snapshotMimeType''")
  case None
  with tick_unregistered [OF None assms(1)] show ?thesis by (simp add: mime_settled_def)
next
  case (Some m)
  show ?thesis
  proof (cases "pvalue m = JNull")
    case True
    from tick_first_success [OF Some True assms(1)] assms(2) show ?thesis
      by (simp add: mime_settled_def setCachedValue_def)
  next
    case False
    from tick_already_set [OF Some False assms(1)] False show ?thesis
      by (simp add: mime_settled_def)
  qed
qed

lemma mime_writes_append: "mime_writes (xs @ ys) = mime_writes xs + mime_writes ys"
  by (simp add: mime_writes_def)

lemma tick_writes_le_1:
  assumes "tick d r = (d', ev, p)"
  shows "mime_writes ev \<le> 1"
proof (cases r)
  case (Rejected e)
  with assms show ?thesis by (auto simp: tick_Rejected mime_writes_def)
next
  case (Fulfilled res)
  show ?thesis
  proof (cases "mime_settled d")
    case True
    from tick_settled [OF True assms] show ?thesis by simp
  next
    case False
    then obtain m where "properties d ''snapshotMimeType'' = Some m" "pvalue m = JNull"
      by (auto simp: mime_settled_def split: option.splits)
    from tick_first_success [OF this] assms Fulfilled show ?thesis by simp
  qed
qed

lemma tick_registered:
  assumes "snapshot_registered d" and "tick d r = (d', ev, p)"
  shows "snapshot_registered d'"
  using assms
  by (cases r)
     (auto simp: tick_def snapshot_def on_snapshot_def snapshot_registered_def Let_def
           split: if_splits)

lemma tick_success_snapshot:
  assumes "snapshot_registered d" and "tick d (Fulfilled res) = (d', ev, p)"
  shows "\<exists>s pre. properties d ''snapshot'' = Some s
       \<and> properties d' ''snapshot'' = Some (setCachedValue s (JStr (base64 (image res))))
       \<and> ev = pre @ [SetCachedValue ''snapshot'' (JStr (base64 (image res))),
                      NotifyPropertyChanged (setCachedValue s (JStr (base64 (image res))))]"
proof -
  from assms(1) obtain m s where
    m: "properties d ''snapshotMimeType'' = Some m" and s: "properties d ''snapshot'' = Some s"
    by (auto simp: snapshot_registered_def)
  show ?thesis
  proof (cases "pvalue m = JNull")
    case True
    with assms(2) m s show ?thesis
      by (auto simp: tick_def snapshot_def on_snapshot_def Let_def)
  next
    case False
    with assms(2) m s show ?thesis
      by (auto simp: tick_def snapshot_def on_snapshot_def Let_def)
  qed
qed

subsection \<open>The device's lifetime\<close>

lemma run_poller_append:
  "run_poller d (rs @ rs') =
     (case run_poller d rs of (d1, ev1) \<Rightarrow>
        (case run_poller d1 rs' of (d2, ev2) \<Rightarrow> (d2, ev1 @ ev2)))"
  by (induction rs arbitrary: d) (auto split: prod.splits)

lemma run_settled:
  assumes "mime_settled d" and "run_poller d rs = (d', evs)"
  shows "properties d' ''snapshotMimeType'' = properties d ''snapshotMimeType''
       \<and> mime_writes evs = 0"
  using assms
proof (induction rs arbitrary: d d' evs)
  case Nil
  then show ?case by (simp add: mime_writes_def)
next
  case (Cons r rs)
  obtain d1 ev1 p1 where t: "tick d r = (d1, ev1, p1)" by (cases "tick d r") auto
  obtain d2 ev2 where u: "run_poller d1 rs = (d2, ev2)" by (cases "run_poller d1 rs") auto
  from Cons.prems(2) t u have e: "d' = d2" "evs = ev1 @ ev2" by simp_all
  from tick_settled [OF Cons.prems(1) t] have
    k: "properties d1 ''snapshotMimeType'' = properties d ''snapshotMimeType''"
    and w: "mime_writes ev1 = 0" by simp_all
  from k Cons.prems(1) have "mime_settled d1" by (simp add: mime_settled_def)
  from Cons.IH [OF this u] k w e show ?case by (simp add: mime_writes_append)
qed

lemma run_writes_le_1:
  assumes "\<forall>res. Fulfilled res \<in> set rs \<longrightarrow> res_mimeType res \<noteq> JNull"
  shows "mime_writes (snd (run_poller d rs)) \<le> 1"
  using assms
proof (induction rs arbitrary: d)
  case Nil
  show ?case by (simp add: mime_writes_def)
next
  case (Cons r rs)
  obtain d1 ev1 p1 where t: "tick d r = (d1, ev1, p1)" by (cases "tick d r") auto
  obtain d2 ev2 where u: "run_poller d1 rs = (d2, ev2)" by (cases "run_poller d1 rs") auto
  from t u have e: "snd (run_poller d (r # rs)) = ev1 @ ev2" by simp
  from Cons.prems have tl: "\<forall>res. Fulfilled res \<in> set rs \<longrightarrow> res_mimeType res \<noteq> JNull"
    by simp
  show ?case
  proof (cases "mime_writes ev1 = 0")
    case True
    from Cons.IH [OF tl, of d1] u True e show ?thesis by (simp add: mime_writes_append)
  next
    case False
    have "mime_settled d1"
    proof (cases r)
      case (Fulfilled res)
      with Cons.prems have "res_mimeType res \<noteq> JNull" by simp
      with t Fulfilled show ?thesis using tick_success_settles by blast
    next
      case (Rejected x)
      with t False show ?thesis by (auto simp: tick_Rejected mime_writes_def)
    qed
    from run_settled [OF this u] tick_writes_le_1 [OF t] e show ?thesis
      by (simp add: mime_writes_append)
  qed
qed

lemma run_ends_with_success:
  assumes "run_poller d (rs @ [Fulfilled res]) = (d1, ev1)" and "res_mimeType res \<noteq> JNull"
  shows "mime_settled d1"
proof -
  obtain d0 ev0 where a: "run_poller d rs = (d0, ev0)" by (cases "run_poller d rs") auto
  obtain d' ev p where t: "tick d0 (Fulfilled res) = (d', ev, p)"
    by (cases "tick d0 (Fulfilled res)") auto
  from assms a t have "d1 = d'" by (simp add: run_poller_append)
  with tick_success_settles [OF t assms(2)] show ?thesis by simp
qed

lemma run_registered:
  assumes "snapshot_registered d" and "run_poller d rs = (d', evs)"
  shows "snapshot_registered d'"
  using assms
proof (induction rs arbitrary: d d' evs)
  case Nil
  then show ?case by simp
next
  case (Cons r rs)
  obtain d1 ev1 p1 where t: "tick d r = (d1, ev1, p1)" by (cases "tick d r") auto
  obtain d2 ev2 where u: "run_poller d1 rs = (d2, ev2)" by (cases "run_poller d1 rs") auto
  from Cons.prems(2) t u have "d' = d2" by simp
  with Cons.IH [OF tick_registered [OF Cons.prems(1) t] u] show ?case by simp
qed

lemma constructed_registered:
  assumes "OnvifDevice fmt data cam = Inr d"
  shows "snapshot_registered d \<and>
         map_option pvalue (properties d ''snapshotMimeType'') = Some JNull"
proof -
  from OnvifDevice_properties [OF assms] obtain props where
    b: "base_properties fmt (getDefaultProfile cam) = Inr props" and
    a: "audio_properties fmt (getDefaultProfile cam) props = Inr (properties d)"
    by blast
  from b have "map_option pvalue (props ''snapshotMimeType'') = Some JNull"
    and "props ''snapshot'' \<noteq> None"
    unfolding base_properties_def by (elim and_thenE; simp add: OnvifProperty_def; fastforce)+
  moreover have "properties d ''snapshotMimeType'' = props ''snapshotMimeType''"
    "properties d ''snapshot'' = props ''snapshot''"
    by (simp_all add: audio_properties_other [OF a])
  ultimately show ?thesis by (simp add: snapshot_registered_def del: map_option_eq_Some) auto
qed

lemmas poller_defs = tick_def snapshot_def on_snapshot_def Let_def setCachedValue_def
  OnvifProperty_def example_device_def example_properties_def png_response_def
  jpeg_response_def null_response_def

text \<open>
  Claim C2 as stated fails: the code takes \<open>null\<close> for "not set yet" and stores the
  fetched MIME type as it comes. On the constructed example device, a successful
  fetch that reports \<open>null\<close> writes the property and leaves it \<open>null\<close>, and the next
  successful fetch writes it again, this time to \<open>image/jpeg\<close>: two writes.
\<close>

theorem mime_type_written_twice_counterexample:
  "mime_writes (snd (run_poller (example_device None)
      [Fulfilled null_response, Fulfilled jpeg_response])) = 2
   \<and> map_option pvalue
        (properties (fst (run_poller (example_device None) [Fulfilled null_response]))
           ''snapshotMimeType'') = Some JNull
   \<and> map_option pvalue
        (properties (fst (run_poller (example_device None)
           [Fulfilled null_response, Fulfilled jpeg_response])) ''snapshotMimeType'')
       = Some (JStr ''image/jpeg'')"
  by (simp add: poller_defs mime_writes_def)

text \<open>
  Claim C2, amended. Over a lifetime of a constructed device in which no successful
  fetch reports \<open>null\<close> as its MIME type, the poller writes the value of
  \<open>snapshotMimeType\<close> at most once. And in any lifetime, once a successful fetch that
  reports a MIME type other than \<open>null\<close> has been handled, the property holds a value
  other than \<open>null\<close> that no later tick writes again or changes, whatever the later
  fetches report.
\<close>

theorem mime_type_written_at_most_once:
  assumes "OnvifDevice fmt data cam = Inr d0"
  shows "((\<forall>r. Fulfilled r \<in> set rs \<longrightarrow> res_mimeType r \<noteq> JNull)
            \<longrightarrow> mime_writes (snd (run_poller d0 rs)) \<le> 1)
       \<and> (\<forall>d1 ev1 d2 ev2.
            res_mimeType res \<noteq> JNull
            \<and> run_poller d0 (rs1 @ [Fulfilled res]) = (d1, ev1) \<and> run_poller d1 rs2 = (d2, ev2)
            \<longrightarrow> (\<exists>m. properties d1 ''snapshotMimeType'' = Some m \<and> pvalue m \<noteq> JNull
                     \<and> properties d2 ''snapshotMimeType'' = Some m)
               \<and> mime_writes ev2 = 0)"
proof (intro conjI allI impI)
  assume "\<forall>r. Fulfilled r \<in> set rs \<longrightarrow> res_mimeType r \<noteq> JNull"
  then show "mime_writes (snd (run_poller d0 rs)) \<le> 1" by (rule run_writes_le_1)
next
  fix d1 ev1 d2 ev2
  assume h: "res_mimeType res \<noteq> JNull
    \<and> run_poller d0 (rs1 @ [Fulfilled res]) = (d1, ev1) \<and> run_poller d1 rs2 = (d2, ev2)"
  then have n: "res_mimeType res \<noteq> JNull"
    and a: "run_poller d0 (rs1 @ [Fulfilled res]) = (d1, ev1)"
    and b: "run_poller d1 rs2 = (d2, ev2)" by simp_all
  from constructed_registered [OF assms] have "snapshot_registered d0" by simp
  from run_registered [OF this a] obtain m where
    m: "properties d1 ''snapshotMimeType'' = Some m"
    by (auto simp: snapshot_registered_def)
  have st: "mime_settled d1" by (rule run_ends_with_success [OF a n])
  with m have "pvalue m \<noteq> JNull" by (simp add: mime_settled_def)
  with run_settled [OF st b] m
  show "\<exists>m. properties d1 ''snapshotMimeType'' = Some m \<and> pvalue m \<noteq> JNull
           \<and> properties d2 ''snapshotMimeType'' = Some m" by simp
  from run_settled [OF st b] show "mime_writes ev2 = 0" by simp
qed

text \<open>
  The witness of the amended C2: a PNG snapshot, then a fetch that reports \<open>null\<close>,
  then a JPEG snapshot. The first sets the MIME type to \<open>image/png\<close>; the later two
  neither write nor change it.
\<close>

theorem mime_type_written_at_most_once_witness:
  "OnvifDevice (\<lambda>r. []) example_data (example_camera [] None) = Inr (example_device None)
   \<and> mime_writes (snd (run_poller (example_device None)
         [Fulfilled png_response, Fulfilled jpeg_response])) \<le> 1
   \<and> map_option pvalue
        (properties (fst (run_poller (example_device None) [Fulfilled png_response]))
           ''snapshotMimeType'') = Some (JStr ''image/png'')
   \<and> properties (fst (run_poller (fst (run_poller (example_device None) [Fulfilled png_response]))
         [Fulfilled null_response, Fulfilled jpeg_response])) ''snapshotMimeType''
       = properties (fst (run_poller (example_device None) [Fulfilled png_response]))
           ''snapshotMimeType''
   \<and> mime_writes (snd (run_poller (fst (run_poller (example_device None) [Fulfilled png_response]))
         [Fulfilled null_response, Fulfilled jpeg_response])) = 0"
proof -
  define d1 where "d1 = fst (run_poller (example_device None) [Fulfilled png_response])"
  define later where "later = [Fulfilled null_response, Fulfilled jpeg_response]"
  have c: "OnvifDevice (\<lambda>r. []) example_data (example_camera [] None) = Inr (example_device None)"
    by (rule example_device_constructed)
  have nn: "\<forall>r. Fulfilled r \<in> set [Fulfilled png_response, Fulfilled jpeg_response]
              \<longrightarrow> res_mimeType r \<noteq> JNull"
    by (auto simp: png_response_def jpeg_response_def)
  have n1: "res_mimeType png_response \<noteq> JNull" by (simp add: png_response_def)
  have r1: "run_poller (example_device None) ([] @ [Fulfilled png_response])
              = (d1, snd (run_poller (example_device None) [Fulfilled png_response]))"
    by (simp add: d1_def)
  have r2: "run_poller d1 later = (fst (run_poller d1 later), snd (run_poller d1 later))"
    by simp
  have v: "map_option pvalue (properties d1 ''snapshotMimeType'') = Some (JStr ''image/png'')"
    unfolding d1_def by (simp add: poller_defs)
  from mime_type_written_at_most_once
    [OF c, of "[Fulfilled png_response, Fulfilled jpeg_response]" png_response "[]" later]
  have w: "mime_writes (snd (run_poller (example_device None)
             [Fulfilled png_response, Fulfilled jpeg_response])) \<le> 1"
    and k: "properties (fst (run_poller d1 later)) ''snapshotMimeType''
              = properties d1 ''snapshotMimeType''"
    and z: "mime_writes (snd (run_poller d1 later)) = 0"
    using nn n1 r1 r2 by (blast, metis, blast)
  from c w v k z show ?thesis unfolding d1_def later_def by blast
qed

text \<open>
  Claim C3. At every tick in the lifetime of a constructed device whose fetch
  succeeds, the cached value of \<open>snapshot\<close> is overwritten with the base64 encoding
  of the fetched bytes, and the write is followed by a change notification for the
  property, whatever the value cached before.
\<close>

theorem snapshot_overwritten_on_success:
  assumes "OnvifDevice fmt data cam = Inr d0"
      and "run_poller d0 rs = (d, evs)"
      and "tick d (Fulfilled res) = (d', ev, p)"
  shows "\<exists>s pre. properties d ''snapshot'' = Some s
       \<and> properties d' ''snapshot'' = Some (setCachedValue s (JStr (base64 (image res))))
       \<and> ev = pre @ [SetCachedValue ''snapshot'' (JStr (base64 (image res))),
                      NotifyPropertyChanged (setCachedValue s (JStr (base64 (image res))))]"
proof -
  from constructed_registered [OF assms(1)] have "snapshot_registered d0" by simp
  from run_registered [OF this assms(2)] have "snapshot_registered d" .
  from tick_success_snapshot [OF this assms(3)] show ?thesis .
qed

lemma base64_png: "base64 (image png_response) = ''TWFu''"
  by (simp add: png_response_def base64_char_def)

text \<open>
  The witness of C3: the same three bytes fetched twice. The second tick writes and
  notifies again, although the cached value already is their encoding.
\<close>

theorem snapshot_overwritten_on_success_witness:
  "map_option pvalue
     (properties (fst (run_poller (example_device None) [Fulfilled png_response])) ''snapshot'')
     = Some (JStr ''TWFu'')
   \<and> (\<exists>s pre.
        fst (snd (tick (fst (run_poller (example_device None) [Fulfilled png_response]))
                    (Fulfilled png_response)))
          = pre @ [SetCachedValue ''snapshot'' (JStr ''TWFu''),
                   NotifyPropertyChanged (setCachedValue s (JStr ''TWFu''))])"
proof -
  define d where "d = fst (run_poller (example_device None) [Fulfilled png_response])"
  have c: "OnvifDevice (\<lambda>r. []) example_data (example_camera [] None) = Inr (example_device None)"
    by (rule example_device_constructed)
  have r: "run_poller (example_device None) [Fulfilled png_response]
             = (d, snd (run_poller (example_device None) [Fulfilled png_response]))"
    by (simp add: d_def)
  have t: "tick d (Fulfilled png_response)
             = (fst (tick d (Fulfilled png_response)),
                fst (snd (tick d (Fulfilled png_response))),
                snd (snd (tick d (Fulfilled png_response))))"
    by simp
  have v: "map_option pvalue (properties d ''snapshot'') = Some (JStr ''TWFu'')"
    unfolding d_def by (simp add: poller_defs base64_char_def)
  from snapshot_overwritten_on_success [OF c r t] v show ?thesis
    unfolding d_def base64_png by blast
qed

text \<open>
  Claim C9. At a tick whose fetch fails, in any state of the device, the error is
  logged and nothing else happens: the device, with every property's cached value, is
  unchanged, no property is written and no change is notified, and the chain of the
  callback is fulfilled, so the failure reaches no caller.
\<close>

theorem failed_fetch_changes_nothing:
  "tick d (Rejected e)
     = (d, [GetSnapshot, ConsoleError ''Error fetching snapshot: '' e], Fulfilled ())
   \<and> filter is_property_event (fst (snd (tick d (Rejected e)))) = []"
  by (simp add: tick_Rejected)

section \<open>The properties of performAction\<close>

text \<open>
  Claim C4. For every action whose name is neither \<open>move\<close> nor \<open>stop\<close>,
  \<open>performAction\<close> sets the action's status to \<open>error\<close>, notifies the action exactly
  once, calls no operation of the camera, and returns a resolved promise.
\<close>

theorem unknown_action_is_an_error:
  assumes "action_name a \<noteq> ''move''" and "action_name a \<noteq> ''stop''"
  shows "performAction d a
           = (Returned (Fulfilled ()), a\<lparr>status := JStr ''error''\<rparr>,
              [ActionNotify (a\<lparr>status := JStr ''error''\<rparr>)])
       \<and> length (filter is_action_notify (snd (snd (performAction d a)))) = 1
       \<and> filter is_camera_call (snd (snd (performAction d a))) = []"
  using assms by (simp add: performAction_def Let_def)

text \<open>The witness of C4: an action named \<open>zoom\<close>.\<close>

theorem unknown_action_is_an_error_witness:
  "performAction (example_device (Some example_ptz)) (example_action ''zoom'')
     = (Returned (Fulfilled ()), (example_action ''zoom'')\<lparr>status := JStr ''error''\<rparr>,
        [ActionNotify ((example_action ''zoom'')\<lparr>status := JStr ''error''\<rparr>)])"
proof -
  have "action_name (example_action ''zoom'') \<noteq> ''move''"
    and "action_name (example_action ''zoom'') \<noteq> ''stop''"
    by (simp_all add: example_action_def)
  from unknown_action_is_an_error [OF this] show ?thesis by blast
qed

text \<open>
  Claim C5. For every \<open>move\<close> action whose delegated call of \<open>continuousMove\<close>
  succeeds, \<open>performAction\<close> calls the action's \<open>start\<close>, then the camera, then the
  action's \<open>finish\<close>, and notifies no error.
\<close>

theorem move_success_starts_and_finishes:
  assumes "action_name a = ''move''"
      and "move_arguments (input a) = Inr (v, t)"
      and "ptz (dev_camera d) = Some p"
      and "continuousMove p JNull v t = Fulfilled ()"
  shows "performAction d a
           = (Returned (Fulfilled ()), a, [ActionStart, PtzContinuousMove JNull v t, ActionFinish])
       \<and> filter is_action_notify (snd (snd (performAction d a))) = []"
  using assms by (simp add: performAction_def)

text \<open>
  The witness of C5: the spec's example, speeds 0.5, -0.5 and 0 with a timeout of 3.
\<close>

theorem move_success_starts_and_finishes_witness:
  "performAction (example_device (Some example_ptz)) (example_move (1 / 2) (- 1 / 2) 0 3)
     = (Returned (Fulfilled ()), example_move (1 / 2) (- 1 / 2) 0 3,
        [ActionStart,
         PtzContinuousMove JNull
           \<lparr>vel_x = JNum (1 / 2), vel_y = JNum (- 1 / 2), vel_z = JNum 0\<rparr> (JNum 3),
         ActionFinish])"
proof -
  have "action_name (example_move (1 / 2) (- 1 / 2) 0 3) = ''move''"
    and "move_arguments (input (example_move (1 / 2) (- 1 / 2) 0 3))
           = Inr (\<lparr>vel_x = JNum (1 / 2), vel_y = JNum (- 1 / 2), vel_z = JNum 0\<rparr>, JNum 3)"
    and "ptz (dev_camera (example_device (Some example_ptz))) = Some example_ptz"
    and "continuousMove example_ptz JNull
           \<lparr>vel_x = JNum (1 / 2), vel_y = JNum (- 1 / 2), vel_z = JNum 0\<rparr> (JNum 3)
           = Fulfilled ()"
    by (simp_all add: example_move_def move_arguments_def example_device_def
        example_camera_def example_ptz_def)
  from move_success_starts_and_finishes [OF this] show ?thesis by blast
qed

text \<open>
  Claim C6. For every \<open>move\<close> or \<open>stop\<close> action whose delegated PTZ call is
  rejected, \<open>performAction\<close> logs the reason, sets the action's status to \<open>error\<close> and
  notifies the action once; the camera is called once and not again, and the promise
  returned is fulfilled, so the failure stays inside the action.
\<close>

theorem ptz_failure_is_reported_once:
  assumes "(action_name a = ''move'' \<and> move_arguments (input a) = Inr (v, t)
              \<and> ptz (dev_camera d) = Some p \<and> continuousMove p JNull v t = Rejected e
              \<and> call = PtzContinuousMove JNull v t \<and> msg = ''Failed to move camera: '')
         \<or> (action_name a = ''stop''
              \<and> ptz (dev_camera d) = Some p \<and> stop p = Rejected e
              \<and> call = PtzStop \<and> msg = ''Failed to stop camera: '')"
  shows "performAction d a
           = (Returned (Fulfilled ()), a\<lparr>status := JStr ''error''\<rparr>,
              [ActionStart, call, ConsoleError msg e,
               ActionNotify (a\<lparr>status := JStr ''error''\<rparr>)])
       \<and> length (filter is_action_notify (snd (snd (performAction d a)))) = 1
       \<and> length (filter is_camera_call (snd (snd (performAction d a)))) = 1"
  using assms by (auto simp: performAction_def Let_def)

text \<open>The witness of C6: a camera whose PTZ calls are rejected.\<close>

theorem ptz_failure_is_reported_once_witness:
  "performAction (example_device (Some failing_ptz)) (example_move (1 / 2) (- 1 / 2) 0 3)
     = (Returned (Fulfilled ()),
        (example_move (1 / 2) (- 1 / 2) 0 3)\<lparr>status := JStr ''error''\<rparr>,
        [ActionStart,
         PtzContinuousMove JNull
           \<lparr>vel_x = JNum (1 / 2), vel_y = JNum (- 1 / 2), vel_z = JNum 0\<rparr> (JNum 3),
         ConsoleError ''Failed to move camera: '' (Failure ''Error: timeout''),
         ActionNotify ((example_move (1 / 2) (- 1 / 2) 0 3)\<lparr>status := JStr ''error''\<rparr>)])
   \<and> performAction (example_device (Some failing_ptz)) (example_action ''stop'')
     = (Returned (Fulfilled ()), (example_action ''stop'')\<lparr>status := JStr ''error''\<rparr>,
        [ActionStart, PtzStop,
         ConsoleError ''Failed to stop camera: '' (Failure ''Error: timeout''),
         ActionNotify ((example_action ''stop'')\<lparr>status := JStr ''error''\<rparr>)])"
proof -
  have m: "action_name (example_move (1 / 2) (- 1 / 2) 0 3) = ''move''
      \<and> move_arguments (input (example_move (1 / 2) (- 1 / 2) 0 3))
           = Inr (\<lparr>vel_x = JNum (1 / 2), vel_y = JNum (- 1 / 2), vel_z = JNum 0\<rparr>, JNum 3)
      \<and> ptz (dev_camera (example_device (Some failing_ptz))) = Some failing_ptz
      \<and> continuousMove failing_ptz JNull
           \<lparr>vel_x = JNum (1 / 2), vel_y = JNum (- 1 / 2), vel_z = JNum 0\<rparr> (JNum 3)
           = Rejected (Failure ''Error: timeout'')"
    by (simp add: example_move_def move_arguments_def example_device_def
        example_camera_def failing_ptz_def)
  have s: "action_name (example_action ''stop'') = ''stop''
      \<and> ptz (dev_camera (example_device (Some failing_ptz))) = Some failing_ptz
      \<and> stop failing_ptz = Rejected (Failure ''Error: timeout'')"
    by (simp add: example_action_def example_device_def example_camera_def failing_ptz_def)
  from m have "performAction (example_device (Some failing_ptz)) (example_move (1 / 2) (- 1 / 2) 0 3)
     = (Returned (Fulfilled ()),
        (example_move (1 / 2) (- 1 / 2) 0 3)\<lparr>status := JStr ''error''\<rparr>,
        [ActionStart,
         PtzContinuousMove JNull
           \<lparr>vel_x = JNum (1 / 2), vel_y = JNum (- 1 / 2), vel_z = JNum 0\<rparr> (JNum 3),
         ConsoleError ''Failed to move camera: '' (Failure ''Error: timeout''),
         ActionNotify ((example_move (1 / 2) (- 1 / 2) 0 3)\<lparr>status := JStr ''error''\<rparr>)])"
    using ptz_failure_is_reported_once
      [of "example_move (1 / 2) (- 1 / 2) 0 3"
          "\<lparr>vel_x = JNum (1 / 2), vel_y = JNum (- 1 / 2), vel_z = JNum 0\<rparr>" "JNum 3"
          "example_device (Some failing_ptz)" failing_ptz "Failure ''Error: timeout''"
          "PtzContinuousMove JNull
             \<lparr>vel_x = JNum (1 / 2), vel_y = JNum (- 1 / 2), vel_z = JNum 0\<rparr> (JNum 3)"
          "''Failed to move camera: ''"]
    by blast
  moreover from s have "performAction (example_device (Some failing_ptz)) (example_action ''stop'')
     = (Returned (Fulfilled ()), (example_action ''stop'')\<lparr>status := JStr ''error''\<rparr>,
        [ActionStart, PtzStop,
         ConsoleError ''Failed to stop camera: '' (Failure ''Error: timeout''),
         ActionNotify ((example_action ''stop'')\<lparr>status := JStr ''error''\<rparr>)])"
    using ptz_failure_is_reported_once
      [of "example_action ''stop''" _ _ "example_device (Some failing_ptz)" failing_ptz
          "Failure ''Error: timeout''" PtzStop "''Failed to stop camera: ''"]
    by blast
  ultimately show ?thesis by blast
qed

text \<open>
  Claim C8 as stated fails: a \<open>move\<close> action with the speed 2 and the timeout -5,
  both outside the bounds of the schema, reaches the camera's \<open>continuousMove\<close>
  unchanged.
\<close>

theorem move_bounds_counterexample:
  "\<not> in_bounds speed_schema (JNum 2) \<and> \<not> in_bounds timeout_schema (JNum (- 5))
   \<and> PtzContinuousMove JNull \<lparr>vel_x = JNum 2, vel_y = JNum 0, vel_z = JNum 0\<rparr> (JNum (- 5))
       \<in> set (snd (snd (performAction (example_device (Some example_ptz))
                          (example_move 2 0 0 (- 5)))))"
  by (simp add: in_bounds_def speed_schema_def timeout_schema_def performAction_def
      move_arguments_def example_move_def example_device_def example_camera_def example_ptz_def)

lemma move_arguments_object:
  "move_arguments (JObj fs)
     = Inr (\<lparr>vel_x = field fs ''speedX'', vel_y = field fs ''speedY'',
             vel_z = field fs ''speedZ''\<rparr>,
            if is_number (field fs ''timeout'') then field fs ''timeout'' else JNull)"
  by (simp add: move_arguments_def field_def)

text \<open>
  Claim C8, amended. The constructor registers \<open>move\<close>, when the camera has PTZ, with
  a schema that declares the three speeds as numbers from -1 to 1 and the timeout as a
  number of at least 0. \<open>performAction\<close> checks none of these bounds: for every
  \<open>move\<close> action whose input is an object, on a device whose camera has PTZ, it calls
  \<open>continuousMove\<close> with the three speeds as the input has them and with the timeout
  as the input has it when that is a number, \<open>null\<close> otherwise.
\<close>

theorem move_bounds_declared_not_enforced:
  "(ptz cam \<noteq> None \<and> OnvifDevice fmt data cam = Inr d0
      \<longrightarrow> actions d0 ''move'' = Some move_descr)
 \<and> map_option input_properties (action_input move_descr)
      = Some [(''speedX'', speed_schema), (''speedY'', speed_schema),
              (''speedZ'', speed_schema), (''timeout'', timeout_schema)]
 \<and> minimum speed_schema = Some (- 1) \<and> maximum speed_schema = Some 1
 \<and> minimum timeout_schema = Some 0
 \<and> (action_name a = ''move'' \<and> input a = JObj fs \<and> ptz (dev_camera d) = Some p
      \<longrightarrow> PtzContinuousMove JNull
            \<lparr>vel_x = field fs ''speedX'', vel_y = field fs ''speedY'',
             vel_z = field fs ''speedZ''\<rparr>
            (if is_number (field fs ''timeout'') then field fs ''timeout'' else JNull)
          \<in> set (snd (snd (performAction d a))))"
proof (intro conjI impI)
  assume "ptz cam \<noteq> None \<and> OnvifDevice fmt data cam = Inr d0"
  then show "actions d0 ''move'' = Some move_descr"
    using constructed_actions [of fmt data cam d0] by (auto simp: ptz_actions_def)
next
  assume "action_name a = ''move'' \<and> input a = JObj fs \<and> ptz (dev_camera d) = Some p"
  then show "PtzContinuousMove JNull
            \<lparr>vel_x = field fs ''speedX'', vel_y = field fs ''speedY'',
             vel_z = field fs ''speedZ''\<rparr>
            (if is_number (field fs ''timeout'') then field fs ''timeout'' else JNull)
          \<in> set (snd (snd (performAction d a)))"
    by (cases "continuousMove p JNull
            \<lparr>vel_x = field fs ''speedX'', vel_y = field fs ''speedY'',
             vel_z = field fs ''speedZ''\<rparr>
            (if is_number (field fs ''timeout'') then field fs ''timeout'' else JNull)")
       (simp_all add: performAction_def move_arguments_object Let_def)
qed (simp_all add: move_descr_def speed_schema_def timeout_schema_def)

text \<open>
  The witness of the amended C8: a speed of 3, no other speed, and a timeout that is
  not a number.
\<close>

theorem move_bounds_declared_not_enforced_witness:
  "actions (example_device (Some example_ptz)) ''move'' = Some move_descr
   \<and> PtzContinuousMove JNull \<lparr>vel_x = JNum 3, vel_y = JUndefined, vel_z = JUndefined\<rparr> JNull
       \<in> set (snd (snd (performAction (example_device (Some example_ptz)) example_fast_move)))"
proof -
  have c: "ptz (example_camera [] (Some example_ptz)) \<noteq> None
      \<and> OnvifDevice (\<lambda>r. []) example_data (example_camera [] (Some example_ptz))
          = Inr (example_device (Some example_ptz))"
    by (simp add: example_device_constructed) (simp add: example_camera_def)
  have a: "action_name example_fast_move = ''move''
      \<and> input example_fast_move = JObj [(''speedX'', JNum 3), (''timeout'', JStr ''soon'')]
      \<and> ptz (dev_camera (example_device (Some example_ptz))) = Some example_ptz"
    by (simp add: example_fast_move_def example_device_def example_camera_def)
  have f: "field [(''speedX'', JNum 3), (''timeout'', JStr ''soon'')] ''speedX'' = JNum 3"
    "field [(''speedX'', JNum 3), (''timeout'', JStr ''soon'')] ''speedY'' = JUndefined"
    "field [(''speedX'', JNum 3), (''timeout'', JStr ''soon'')] ''speedZ'' = JUndefined"
    "field [(''speedX'', JNum 3), (''timeout'', JStr ''soon'')] ''timeout'' = JStr ''soon''"
    by (simp_all add: field_def)
  from move_bounds_declared_not_enforced
    [of "example_camera [] (Some example_ptz)" "\<lambda>r. []" example_data
        "example_device (Some example_ptz)" example_fast_move
        "[(''speedX'', JNum 3), (''timeout'', JStr ''soon'')]"
        "example_device (Some example_ptz)" example_ptz]
    c a
  show ?thesis unfolding f by simp
qed

text \<open>
  Claim C10 as stated fails: \<open>performAction\<close> throws a \<open>TypeError\<close> before it returns
  for a \<open>move\<close> action without input, and for a \<open>move\<close> or \<open>stop\<close> action on a
  device whose camera has no PTZ.
\<close>

theorem performAction_throws_counterexample:
  "fst (performAction (example_device (Some example_ptz)) (example_action ''move''))
     = Threw TypeError
   \<and> fst (performAction (example_device None) (example_move 0 0 0 1)) = Threw TypeError
   \<and> fst (performAction (example_device None) (example_action ''stop'')) = Threw TypeError"
  by (simp add: performAction_def move_arguments_def example_action_def example_move_def
      example_device_def example_camera_def)

lemma move_arguments_total:
  assumes "i \<noteq> JUndefined" and "i \<noteq> JNull"
  shows "\<exists>v t. move_arguments i = Inr (v, t)"
  using assms by (cases i) (simp_all add: move_arguments_def)

text \<open>
  Claim C10, amended. For every action that is not a \<open>move\<close> without input
  (\<open>undefined\<close> or \<open>null\<close>) and not a \<open>move\<close> or \<open>stop\<close> on a device whose camera
  has no PTZ, \<open>performAction\<close> does not throw and returns a promise that is fulfilled,
  whether the delegated call succeeds or fails.
\<close>

theorem performAction_resolves:
  assumes "action_name a = ''move'' \<longrightarrow> input a \<noteq> JUndefined \<and> input a \<noteq> JNull"
      and "action_name a = ''move'' \<or> action_name a = ''stop'' \<longrightarrow> ptz (dev_camera d) \<noteq> None"
  shows "fst (performAction d a) = Returned (Fulfilled ())"
proof (cases "action_name a = ''move''")
  case True
  with assms obtain v t p where
    "move_arguments (input a) = Inr (v, t)" "ptz (dev_camera d) = Some p"
    using move_arguments_total by blast
  with True show ?thesis
    by (cases "continuousMove p JNull v t") (simp_all add: performAction_def Let_def)
next
  case False
  show ?thesis
  proof (cases "action_name a = ''stop''")
    case True
    with assms obtain p where "ptz (dev_camera d) = Some p" by blast
    with True show ?thesis
      by (cases "stop p") (simp_all add: performAction_def Let_def)
  next
    case False
    with \<open>action_name a \<noteq> ''move''\<close> show ?thesis by (simp add: performAction_def Let_def)
  qed
qed

text \<open>
  The witness of the amended C10: a move that the camera rejects, a stop, and an
  unknown action on a camera without PTZ.
\<close>

theorem performAction_resolves_witness:
  "fst (performAction (example_device (Some failing_ptz)) (example_move (1 / 2) (- 1 / 2) 0 3))
     = Returned (Fulfilled ())
   \<and> fst (performAction (example_device (Some example_ptz)) (example_action ''stop''))
     = Returned (Fulfilled ())
   \<and> fst (performAction (example_device None) (example_action ''zoom''))
     = Returned (Fulfilled ())"
proof -
  have "action_name (example_move (1 / 2) (- 1 / 2) 0 3) = ''move''
          \<longrightarrow> input (example_move (1 / 2) (- 1 / 2) 0 3) \<noteq> JUndefined
            \<and> input (example_move (1 / 2) (- 1 / 2) 0 3) \<noteq> JNull"
    and "action_name (example_move (1 / 2) (- 1 / 2) 0 3) = ''move''
          \<or> action_name (example_move (1 / 2) (- 1 / 2) 0 3) = ''stop''
          \<longrightarrow> ptz (dev_camera (example_device (Some failing_ptz))) \<noteq> None"
    by (simp_all add: example_move_def example_device_def example_camera_def)
  then have m: "fst (performAction (example_device (Some failing_ptz))
                      (example_move (1 / 2) (- 1 / 2) 0 3)) = Returned (Fulfilled ())"
    by (rule performAction_resolves)
  have "action_name (example_action ''stop'') = ''move''
          \<longrightarrow> input (example_action ''stop'') \<noteq> JUndefined
            \<and> input (example_action ''stop'') \<noteq> JNull"
    and "action_name (example_action ''stop'') = ''move''
          \<or> action_name (example_action ''stop'') = ''stop''
          \<longrightarrow> ptz (dev_camera (example_device (Some example_ptz))) \<noteq> None"
    by (simp_all add: example_action_def example_device_def example_camera_def)
  then have s: "fst (performAction (example_device (Some example_ptz)) (example_action ''stop''))
                  = Returned (Fulfilled ())"
    by (rule performAction_resolves)
  have "action_name (example_action ''zoom'') = ''move''
          \<longrightarrow> input (example_action ''zoom'') \<noteq> JUndefined
            \<and> input (example_action ''zoom'') \<noteq> JNull"
    and "action_name (example_action ''zoom'') = ''move''
          \<or> action_name (example_action ''zoom'') = ''stop''
          \<longrightarrow> ptz (dev_camera (example_device None)) \<noteq> None"
    by (simp_all add: example_action_def)
  then have z: "fst (performAction (example_device None) (example_action ''zoom''))
                  = Returned (Fulfilled ())"
    by (rule performAction_resolves)
  from m s z show ?thesis by simp
qed

end
